theory Spec2Isabelle
  imports Main
begin

section \<open>Python values and dictionaries\<close>

text \<open>
  The data-access layer of \<^verbatim>\<open>database.py\<close> handles documents: Python dictionaries
  from field names to values. A value is \<^verbatim>\<open>None\<close>, a boolean, an integer, a string, a
  \<^verbatim>\<open>datetime\<close> (a point on the clock, here an integer count of clock ticks), a
  \<^verbatim>\<open>bson.ObjectId\<close> (carrying the text that \<^verbatim>\<open>str\<close> gives for it), a list or a
  nested dictionary. A dictionary is kept as the list of its items in insertion order,
  as Python keeps it; its keys are pairwise distinct. Floating point numbers are left out.
  Stored documents are values: two stored documents share no list or dictionary object.
\<close>

datatype py_error = TypeError | ValueError | AttributeError

datatype pyval =
    PNone
  | PBool bool
  | PInt int
  | PStr string
  | PDatetime int
  | PObjectId string
  | PList "pyval list"
  | PDict "(string \<times> pyval) list"

type_synonym pydict = "(string \<times> pyval) list"

text \<open>\<^verbatim>\<open>d[k] = v\<close>: an existing key keeps its place, a new key goes to the end.\<close>

fun dict_setitem :: "'k \<Rightarrow> 'v \<Rightarrow> ('k \<times> 'v) list \<Rightarrow> ('k \<times> 'v) list" where
  "dict_setitem k v [] = [(k, v)]"
| "dict_setitem k v ((k', v') # d) =
     (if k' = k then (k, v) # d else (k', v') # dict_setitem k v d)"

text \<open>\<^verbatim>\<open>d.setdefault(k, v)\<close>, as far as it changes the dictionary.\<close>

definition dict_setdefault :: "'k \<Rightarrow> 'v \<Rightarrow> ('k \<times> 'v) list \<Rightarrow> ('k \<times> 'v) list" where
  "dict_setdefault k v d = (case map_of d k of None \<Rightarrow> d @ [(k, v)] | Some _ \<Rightarrow> d)"

text \<open>\<^verbatim>\<open>del d[k]\<close> for a key that is present: its item goes, the others keep their order.\<close>

definition dict_delitem :: "'k \<Rightarrow> ('k \<times> 'v) list \<Rightarrow> ('k \<times> 'v) list" where
  "dict_delitem k d = filter (\<lambda>kv. fst kv \<noteq> k) d"

text \<open>\<^verbatim>\<open>list(d.values())\<close>.\<close>

definition dict_values :: "('k \<times> 'v) list \<Rightarrow> 'v list" where
  "dict_values d = map snd d"

text \<open>
  Hashing: a list and a dictionary are unhashable, so that using one as a dictionary key
  (also in a membership test \<^verbatim>\<open>x in d\<close>) raises \<^verbatim>\<open>TypeError\<close>.
\<close>

fun py_hashable :: "pyval \<Rightarrow> bool" where
  "py_hashable (PList _) = False"
| "py_hashable (PDict _) = False"
| "py_hashable _ = True"

text \<open>
  \<^verbatim>\<open>int(v)\<close>. What \<^verbatim>\<open>int\<close> makes of a string is Python's own parser; it is the
  parameter \<open>si\<close>, whose \<open>None\<close> is the \<^verbatim>\<open>ValueError\<close> of a string that is no
  integer literal.
\<close>

fun py_int :: "(string \<Rightarrow> int option) \<Rightarrow> pyval \<Rightarrow> py_error + int" where
  "py_int si (PInt n) = Inr n"
| "py_int si (PBool b) = Inr (if b then 1 else 0)"
| "py_int si (PStr s) = (case si s of None \<Rightarrow> Inl ValueError | Some n \<Rightarrow> Inr n)"
| "py_int si _ = Inl TypeError"

text \<open>Iterating a value, as \<^verbatim>\<open>for i in v\<close> does: the items of a list, the
  characters of a string, the keys of a dictionary; anything else is not iterable.\<close>

fun py_iter :: "pyval \<Rightarrow> py_error + pyval list" where
  "py_iter (PList xs) = Inr xs"
| "py_iter (PStr s) = Inr (map (\<lambda>c. PStr [c]) s)"
| "py_iter (PDict d) = Inr (map (\<lambda>kv. PStr (fst kv)) d)"
| "py_iter _ = Inl TypeError"

text \<open>The slice \<^verbatim>\<open>xs[:n]\<close>; a negative \<open>n\<close> counts from the end.\<close>

definition py_slice_to :: "'a list \<Rightarrow> int \<Rightarrow> 'a list" where
  "py_slice_to xs n =
     (if 0 \<le> n then take (nat n) xs else take (length xs - nat (- n)) xs)"

section \<open>The in-memory collection\<close>

record memory_collection =
  items :: "(string \<times> pydict) list"

definition new_collection :: memory_collection where
  "new_collection = \<lparr>items = []\<rparr>"

text \<open>
  \<^verbatim>\<open>insert_one\<close>: \<open>oid\<close> is the token \<^verbatim>\<open>os.urandom(12).hex()\<close> draws. The stored
  document is \<^verbatim>\<open>{**doc, "_id": oid}\<close>; the result is \<^verbatim>\<open>inserted_id\<close>.
\<close>

definition insert_one :: "memory_collection \<Rightarrow> pydict \<Rightarrow> string \<Rightarrow> memory_collection \<times> pyval" where
  "insert_one c doc oid =
     (c\<lparr>items := dict_setitem oid (dict_setitem ''_id'' (PStr oid) doc) (items c)\<rparr>, PStr oid)"

text \<open>
  \<^verbatim>\<open>val in self.items\<close>, together with the entry \<^verbatim>\<open>self.items[val]\<close> when the
  test holds: the keys of \<open>items\<close> are strings, so only a string can be found.
\<close>

definition items_lookup :: "memory_collection \<Rightarrow> pyval \<Rightarrow> py_error + (string \<times> pydict) option" where
  "items_lookup c val =
     (if \<not> py_hashable val then Inl TypeError
      else case val of
        PStr s \<Rightarrow> Inr (case map_of (items c) s of None \<Rightarrow> None | Some d \<Rightarrow> Some (s, d))
      | _ \<Rightarrow> Inr None)"

text \<open>The comprehension \<^verbatim>\<open>[self.items[i] for i in ids if i in self.items]\<close>.\<close>

fun find_in :: "memory_collection \<Rightarrow> pyval list \<Rightarrow> py_error + pydict list" where
  "find_in c [] = Inr []"
| "find_in c (i # ids) =
     (case items_lookup c i of
        Inl e \<Rightarrow> Inl e
      | Inr hit \<Rightarrow>
          (case find_in c ids of
             Inl e \<Rightarrow> Inl e
           | Inr ds \<Rightarrow> Inr (case hit of None \<Rightarrow> ds | Some (s, d) \<Rightarrow> d # ds)))"

definition find_memory :: "memory_collection \<Rightarrow> pydict \<Rightarrow> py_error + pydict list" where
  "find_memory c filter_dict =
     (if filter_dict = [] then Inr (dict_values (items c))
      else case map_of filter_dict ''_id'' of
        None \<Rightarrow> Inr (dict_values (items c))
      | Some val \<Rightarrow>
          (case (case val of PDict q \<Rightarrow> map_of q ''$in'' | _ \<Rightarrow> None) of
             Some ids \<Rightarrow>
               (case py_iter ids of Inl e \<Rightarrow> Inl e | Inr is \<Rightarrow> find_in c is)
           | None \<Rightarrow>
               (case items_lookup c val of
                  Inl e \<Rightarrow> Inl e
                | Inr None \<Rightarrow> Inr []
                | Inr (Some (s, d)) \<Rightarrow> Inr [d])))"

subsection \<open>Updating and deleting one document\<close>

text \<open>
  \<^verbatim>\<open>update_one\<close>. Each of the three loops walks the items of its operator's
  dictionary (\<^verbatim>\<open>.items()\<close> of anything else raises \<^verbatim>\<open>AttributeError\<close>) and
  changes the stored document in place, so a loop that raises leaves the changes made
  so far: every stage returns the document it reached and the error, if any.
\<close>

record update_result =
  matched_count :: int
  modified_count :: int

record delete_result =
  deleted_count :: int

definition dict_items :: "pyval \<Rightarrow> py_error + pydict" where
  "dict_items v = (case v of PDict d \<Rightarrow> Inr d | _ \<Rightarrow> Inl AttributeError)"

text \<open>\<^verbatim>\<open>doc[k] = int(doc.get(k, 0)) + int(v)\<close> for every item of \<^verbatim>\<open>$inc\<close>.\<close>

definition get0 :: "pydict \<Rightarrow> string \<Rightarrow> pyval" where
  "get0 doc k = (case map_of doc k of None \<Rightarrow> PInt 0 | Some x \<Rightarrow> x)"

fun inc_items :: "(string \<Rightarrow> int option) \<Rightarrow> pydict \<Rightarrow> pydict \<Rightarrow> pydict \<times> py_error option" where
  "inc_items si [] doc = (doc, None)"
| "inc_items si ((k, v) # kvs) doc =
     (case py_int si (get0 doc k) of
        Inl e \<Rightarrow> (doc, Some e)
      | Inr a \<Rightarrow>
          (case py_int si v of
             Inl e \<Rightarrow> (doc, Some e)
           | Inr b \<Rightarrow> inc_items si kvs (dict_setitem k (PInt (a + b)) doc)))"

text \<open>\<^verbatim>\<open>arr = doc.setdefault(k, [])\<close>, then \<^verbatim>\<open>arr.append(v)\<close> if \<^verbatim>\<open>arr\<close> is a list.\<close>

definition push_item :: "string \<Rightarrow> pyval \<Rightarrow> pydict \<Rightarrow> pydict" where
  "push_item k v doc =
     (case map_of doc k of
        None \<Rightarrow> doc @ [(k, PList [v])]
      | Some (PList xs) \<Rightarrow> dict_setitem k (PList (xs @ [v])) doc
      | Some _ \<Rightarrow> doc)"

fun push_items :: "pydict \<Rightarrow> pydict \<Rightarrow> pydict" where
  "push_items [] doc = doc"
| "push_items ((k, v) # kvs) doc = push_items kvs (push_item k v doc)"

fun set_items :: "pydict \<Rightarrow> pydict \<Rightarrow> pydict" where
  "set_items [] doc = doc"
| "set_items ((k, v) # kvs) doc = set_items kvs (dict_setitem k v doc)"

definition stage_inc :: "(string \<Rightarrow> int option) \<Rightarrow> pydict \<Rightarrow> pydict \<Rightarrow> pydict \<times> py_error option" where
  "stage_inc si update doc =
     (case map_of update ''$inc'' of
        None \<Rightarrow> (doc, None)
      | Some p \<Rightarrow> (case dict_items p of Inl e \<Rightarrow> (doc, Some e) | Inr kvs \<Rightarrow> inc_items si kvs doc))"

definition stage_push :: "pydict \<Rightarrow> pydict \<Rightarrow> pydict \<times> py_error option" where
  "stage_push update doc =
     (case map_of update ''$push'' of
        None \<Rightarrow> (doc, None)
      | Some p \<Rightarrow> (case dict_items p of Inl e \<Rightarrow> (doc, Some e) | Inr kvs \<Rightarrow> (push_items kvs doc, None)))"

definition stage_set :: "pydict \<Rightarrow> pydict \<Rightarrow> pydict \<times> py_error option" where
  "stage_set update doc =
     (case map_of update ''$set'' of
        None \<Rightarrow> (doc, None)
      | Some p \<Rightarrow> (case dict_items p of Inl e \<Rightarrow> (doc, Some e) | Inr kvs \<Rightarrow> (set_items kvs doc, None)))"

definition apply_update :: "(string \<Rightarrow> int option) \<Rightarrow> pydict \<Rightarrow> pydict \<Rightarrow> pydict \<times> py_error option" where
  "apply_update si update doc =
     (case stage_inc si update doc of
        (d1, Some e) \<Rightarrow> (d1, Some e)
      | (d1, None) \<Rightarrow>
          (case stage_push update d1 of
             (d2, Some e) \<Rightarrow> (d2, Some e)
           | (d2, None) \<Rightarrow> stage_set update d2))"

text \<open>\<^verbatim>\<open>filter_dict.get("_id")\<close>.\<close>

definition filter_id :: "pydict \<Rightarrow> pyval" where
  "filter_id filter_dict = (case map_of filter_dict ''_id'' of None \<Rightarrow> PNone | Some v \<Rightarrow> v)"

definition update_one ::
  "(string \<Rightarrow> int option) \<Rightarrow> memory_collection \<Rightarrow> pydict \<Rightarrow> pydict
     \<Rightarrow> memory_collection \<times> (py_error + update_result)" where
  "update_one si c filter_dict update =
     (case items_lookup c (filter_id filter_dict) of
        Inl e \<Rightarrow> (c, Inl e)
      | Inr None \<Rightarrow> (c, Inr \<lparr>matched_count = 0, modified_count = 0\<rparr>)
      | Inr (Some (s, doc)) \<Rightarrow>
          (case apply_update si update doc of
             (doc', err) \<Rightarrow>
               (c\<lparr>items := dict_setitem s doc' (items c)\<rparr>,
                case err of
                  Some e \<Rightarrow> Inl e
                | None \<Rightarrow> Inr \<lparr>matched_count = 1, modified_count = 1\<rparr>)))"

definition delete_one ::
  "memory_collection \<Rightarrow> pydict \<Rightarrow> memory_collection \<times> (py_error + delete_result)" where
  "delete_one c filter_dict =
     (case items_lookup c (filter_id filter_dict) of
        Inl e \<Rightarrow> (c, Inl e)
      | Inr None \<Rightarrow> (c, Inr \<lparr>deleted_count = 0\<rparr>)
      | Inr (Some (s, doc)) \<Rightarrow>
          (c\<lparr>items := dict_delitem s (items c)\<rparr>, Inr \<lparr>deleted_count = 1\<rparr>))"

subsection \<open>The update operators in the words of the specification\<close>




definition spec_set_field :: "pydict \<Rightarrow> string \<Rightarrow> pyval option \<Rightarrow> pyval option" where
  "spec_set_field st k old = (case map_of st k of None \<Rightarrow> old | Some v \<Rightarrow> Some v)"


section \<open>The in-memory database\<close>

text \<open>
  \<^verbatim>\<open>_MemoryDB\<close> keeps its collections by name; \<^verbatim>\<open>getattr(db, name)\<close> creates an
  empty collection on first use. A collection name is a name that reaches
  \<^verbatim>\<open>__getattr__\<close>, that is, no attribute the object has anyway.
  A collection object is changed in place; \<open>store_col\<close> writes the changed
  collection back under its name.
\<close>

record memory_db =
  cols :: "(string \<times> memory_collection) list"

definition new_db :: memory_db where
  "new_db = \<lparr>cols = []\<rparr>"

definition getattr_db :: "memory_db \<Rightarrow> string \<Rightarrow> memory_db \<times> memory_collection" where
  "getattr_db db name =
     (case map_of (cols db) name of
        None \<Rightarrow> (db\<lparr>cols := cols db @ [(name, new_collection)]\<rparr>, new_collection)
      | Some c \<Rightarrow> (db, c))"

definition store_col :: "string \<Rightarrow> memory_collection \<Rightarrow> memory_db \<Rightarrow> memory_db" where
  "store_col name c db = db\<lparr>cols := dict_setitem name c (cols db)\<rparr>"

section \<open>Serialization\<close>

definition is_object_id :: "pyval \<Rightarrow> bool" where
  "is_object_id val = (case val of PObjectId _ \<Rightarrow> True | _ \<Rightarrow> False)"

text \<open>\<^verbatim>\<open>str(x) if _is_object_id(x) else x\<close>, the expression of the list comprehension.\<close>

definition serialize_item :: "pyval \<Rightarrow> pyval" where
  "serialize_item x =
     (if is_object_id x then (case x of PObjectId h \<Rightarrow> PStr h | _ \<Rightarrow> x) else x)"

text \<open>
  \<^verbatim>\<open>_serialize\<close>: the branches in the order of the source. An empty document is
  returned as it is; the result has the keys of the document in their order.
\<close>

fun serialize :: "pydict \<Rightarrow> pydict"
  and serialize_value :: "pyval \<Rightarrow> pyval" where
  "serialize [] = []"
| "serialize ((k, v) # doc) = (k, serialize_value v) # serialize doc"
| "serialize_value (PObjectId h) = PStr h"
| "serialize_value (PDatetime t) = PDatetime t"
| "serialize_value (PList xs) = PList (map serialize_item xs)"
| "serialize_value (PDict d) = PDict (serialize d)"
| "serialize_value v = v"

section \<open>The CRUD helpers\<close>

text \<open>
  The helpers work on \<^verbatim>\<open>col = getattr(db, collection_name)\<close> of whichever backend
  was selected. They are written over the method of \<^verbatim>\<open>col\<close> they call, the flag
  \<^verbatim>\<open>USE_MEMORY\<close> and the constructor \<^verbatim>\<open>bson.ObjectId\<close>, which is \<open>None\<close> where it
  raises and otherwise gives the text of the identifier it builds.
\<close>

text \<open>The conversion of the filter that \<^verbatim>\<open>get_documents\<close>, \<^verbatim>\<open>update_document\<close> and
  \<^verbatim>\<open>delete_document\<close> all begin with.\<close>

definition inbound_filter :: "bool \<Rightarrow> (string \<Rightarrow> string option) \<Rightarrow> pydict \<Rightarrow> pydict" where
  "inbound_filter use_memory object_id filter_dict =
     (case map_of filter_dict ''_id'' of
        Some (PStr s) \<Rightarrow>
          (if \<not> use_memory \<and> s \<noteq> [] then
             (case object_id s of
                Some h \<Rightarrow> dict_setitem ''_id'' (PObjectId h) filter_dict
              | None \<Rightarrow> filter_dict)
           else filter_dict)
      | _ \<Rightarrow> filter_dict)"

text \<open>\<^verbatim>\<open>create_document\<close> over \<^verbatim>\<open>col.insert_one\<close>; \<open>now\<close> is \<^verbatim>\<open>datetime.utcnow()\<close>.\<close>

definition create_payload :: "pydict \<Rightarrow> int \<Rightarrow> pydict" where
  "create_payload data now =
     dict_setdefault ''updated_at'' (PDatetime now)
       (dict_setdefault ''created_at'' (PDatetime now) data)"

definition create_document :: "(pydict \<Rightarrow> 's \<times> pyval) \<Rightarrow> pydict \<Rightarrow> int \<Rightarrow> 's \<times> pyval" where
  "create_document col_insert_one data now = col_insert_one (create_payload data now)"

text \<open>\<^verbatim>\<open>get_documents\<close> over \<^verbatim>\<open>col.find\<close>: a \<^verbatim>\<open>TypeError\<close> of the first attempt
  is caught and \<^verbatim>\<open>find\<close> is called again.\<close>

definition get_documents ::
  "bool \<Rightarrow> (string \<Rightarrow> string option) \<Rightarrow> (pydict \<Rightarrow> py_error + pydict list)
     \<Rightarrow> pydict \<Rightarrow> int \<Rightarrow> py_error + pydict list" where
  "get_documents use_memory object_id col_find filter_dict limit =
     (let f = inbound_filter use_memory object_id filter_dict in
      case (case col_find f of
              Inr docs \<Rightarrow> Inr (py_slice_to docs limit)
            | Inl TypeError \<Rightarrow>
                (case col_find f of
                   Inr docs \<Rightarrow> Inr (py_slice_to docs limit)
                 | Inl e \<Rightarrow> Inl e)
            | Inl e \<Rightarrow> Inl e) of
        Inl e \<Rightarrow> Inl e
      | Inr docs \<Rightarrow> Inr (map serialize docs))"

text \<open>\<^verbatim>\<open>update_document\<close> over \<^verbatim>\<open>col.update_one\<close>.\<close>

definition update_payload :: "pydict \<Rightarrow> int \<Rightarrow> pydict" where
  "update_payload data now = dict_setitem ''updated_at'' (PDatetime now) data"

definition update_document ::
  "bool \<Rightarrow> (string \<Rightarrow> string option) \<Rightarrow> (pydict \<Rightarrow> pydict \<Rightarrow> 's \<times> (py_error + update_result))
     \<Rightarrow> pydict \<Rightarrow> pydict \<Rightarrow> int \<Rightarrow> 's \<times> (py_error + int)" where
  "update_document use_memory object_id col_update_one filter_dict data now =
     (let f = inbound_filter use_memory object_id filter_dict in
      case col_update_one f [(''$set'', PDict (update_payload data now))] of
        (s, Inl e) \<Rightarrow> (s, Inl e)
      | (s, Inr res) \<Rightarrow> (s, Inr (modified_count res)))"

text \<open>\<^verbatim>\<open>delete_document\<close> over \<^verbatim>\<open>col.delete_one\<close>.\<close>

definition delete_document ::
  "bool \<Rightarrow> (string \<Rightarrow> string option) \<Rightarrow> (pydict \<Rightarrow> 's \<times> (py_error + delete_result))
     \<Rightarrow> pydict \<Rightarrow> 's \<times> (py_error + int)" where
  "delete_document use_memory object_id col_delete_one filter_dict =
     (let f = inbound_filter use_memory object_id filter_dict in
      case col_delete_one f of
        (s, Inl e) \<Rightarrow> (s, Inl e)
      | (s, Inr res) \<Rightarrow> (s, Inr (deleted_count res)))"

subsection \<open>The helpers on the in-memory database\<close>

text \<open>
  With \<^verbatim>\<open>USE_MEMORY = True\<close> and \<^verbatim>\<open>db = _MemoryDB()\<close> the helpers become functions of
  the database: they take it and return it as the call leaves it. The constructor of
  identifiers is never reached then.
\<close>

definition create_document_memory ::
  "memory_db \<Rightarrow> string \<Rightarrow> pydict \<Rightarrow> int \<Rightarrow> string \<Rightarrow> memory_db \<times> pyval" where
  "create_document_memory db collection_name data now oid =
     (case getattr_db db collection_name of
        (db1, col) \<Rightarrow>
          (case create_document (\<lambda>doc. insert_one col doc oid) data now of
             (col', rid) \<Rightarrow> (store_col collection_name col' db1, rid)))"

definition get_documents_memory ::
  "memory_db \<Rightarrow> string \<Rightarrow> pydict \<Rightarrow> int \<Rightarrow> memory_db \<times> (py_error + pydict list)" where
  "get_documents_memory db collection_name filter_dict limit =
     (case getattr_db db collection_name of
        (db1, col) \<Rightarrow>
          (db1, get_documents True (\<lambda>_. None) (find_memory col) filter_dict limit))"

definition update_document_memory ::
  "(string \<Rightarrow> int option) \<Rightarrow> memory_db \<Rightarrow> string \<Rightarrow> pydict \<Rightarrow> pydict \<Rightarrow> int
     \<Rightarrow> memory_db \<times> (py_error + int)" where
  "update_document_memory si db collection_name filter_dict data now =
     (case getattr_db db collection_name of
        (db1, col) \<Rightarrow>
          (case update_document True (\<lambda>_. None) (update_one si col) filter_dict data now of
             (col', r) \<Rightarrow> (store_col collection_name col' db1, r)))"

definition delete_document_memory ::
  "memory_db \<Rightarrow> string \<Rightarrow> pydict \<Rightarrow> memory_db \<times> (py_error + int)" where
  "delete_document_memory db collection_name filter_dict =
     (case getattr_db db collection_name of
        (db1, col) \<Rightarrow>
          (case delete_document True (\<lambda>_. None) (delete_one col) filter_dict of
             (col', r) \<Rightarrow> (store_col collection_name col' db1, r)))"

text \<open>The stored document with identifier \<open>s\<close> in a collection of the database.\<close>

definition db_doc :: "memory_db \<Rightarrow> string \<Rightarrow> string \<Rightarrow> pydict option" where
  "db_doc db collection_name s =
     (case map_of (cols db) collection_name of None \<Rightarrow> None | Some c \<Rightarrow> map_of (items c) s)"

text \<open>A run of calls of \<^verbatim>\<open>update_document\<close>, each with its collection name, filter,
  fields and the time the clock shows at the call; a call that raises leaves the
  database as its \<^verbatim>\<open>update_one\<close> left it and the run goes on.\<close>

fun run_updates ::
  "(string \<Rightarrow> int option) \<Rightarrow> memory_db \<Rightarrow> (string \<times> pydict \<times> pydict \<times> int) list \<Rightarrow> memory_db" where
  "run_updates si db [] = db"
| "run_updates si db ((collection_name, filter_dict, data, now) # calls) =
     run_updates si (fst (update_document_memory si db collection_name filter_dict data now)) calls"

definition call_data :: "string \<times> pydict \<times> pydict \<times> int \<Rightarrow> pydict" where
  "call_data call = fst (snd (snd call))"

definition call_time :: "string \<times> pydict \<times> pydict \<times> int \<Rightarrow> int" where
  "call_time call = snd (snd (snd call))"

text \<open>A value that holds no \<^verbatim>\<open>ObjectId\<close>, at any depth.\<close>

fun oid_free :: "pyval \<Rightarrow> bool"
  and oid_free_list :: "pyval list \<Rightarrow> bool"
  and oid_free_dict :: "pydict \<Rightarrow> bool" where
  "oid_free (PObjectId h) = False"
| "oid_free (PList xs) = oid_free_list xs"
| "oid_free (PDict d) = oid_free_dict d"
| "oid_free v = True"
| "oid_free_list [] = True"
| "oid_free_list (x # xs) = (oid_free x \<and> oid_free_list xs)"
| "oid_free_dict [] = True"
| "oid_free_dict ((k, v) # d) = (oid_free v \<and> oid_free_dict d)"

section \<open>Dictionaries as association lists\<close>

lemma map_of_dict_setitem: "map_of (dict_setitem k v d) = (map_of d)(k \<mapsto> v)"
  by (induction d) (auto simp: fun_eq_iff)

lemma map_of_dict_delitem: "map_of (dict_delitem k d) = (map_of d)(k := None)"
  by (induction d) (auto simp: fun_eq_iff dict_delitem_def)

lemma keys_dict_setitem_old: "k \<in> fst ` set d \<Longrightarrow> map fst (dict_setitem k v d) = map fst d"
  by (induction d) force+

lemma keys_dict_setitem_new: "k \<notin> fst ` set d \<Longrightarrow> map fst (dict_setitem k v d) = map fst d @ [k]"
  by (induction d) auto

lemma distinct_dict_setitem: "distinct (map fst d) \<Longrightarrow> distinct (map fst (dict_setitem k v d))"
  by (cases "k \<in> fst ` set d") (simp_all add: keys_dict_setitem_old keys_dict_setitem_new)

lemma dict_setitem_same: "map_of d k = Some v \<Longrightarrow> dict_setitem k v d = d"
  by (induction d) auto

lemma find_in_strings:
  "find_in c (map PStr ids) = Inr (List.map_filter (map_of (items c)) ids)"
  by (induction ids) (auto simp: items_lookup_def List.map_filter_simps split: option.splits)








lemma spec_set_field_notin:
  "k \<notin> fst ` set st \<Longrightarrow> spec_set_field st k old = old"
  by (simp add: spec_set_field_def map_of_eq_None_iff [THEN iffD2])

lemma set_items_fields:
  "distinct (map fst st) \<Longrightarrow>
   map_of (set_items st doc) k = spec_set_field st k (map_of doc k)"
proof (induction st arbitrary: doc)
  case Nil
  then show ?case by (simp add: spec_set_field_def)
next
  case (Cons kv st)
  obtain j v where kv: "kv = (j, v)" by (cases kv)
  from Cons.prems kv have notin: "j \<notin> fst ` set st" and dist: "distinct (map fst st)"
    by auto
  show ?case
  proof (cases "k = j")
    case True
    with notin kv Cons.IH [OF dist] show ?thesis
      by (simp add: spec_set_field_notin map_of_dict_setitem) (simp add: spec_set_field_def)
  next
    case False
    with kv Cons.IH [OF dist] show ?thesis
      by (simp add: map_of_dict_setitem) (simp add: spec_set_field_def)
  qed
qed


section \<open>Filters of the in-memory \<^verbatim>\<open>find\<close>\<close>

text \<open>
  C2 (as amended). For every state of an in-memory collection: \<^verbatim>\<open>find\<close> with an empty
  filter returns all documents; so does \<^verbatim>\<open>find\<close> with any filter that has no
  \<^verbatim>\<open>_id\<close> key. A filter whose \<^verbatim>\<open>_id\<close> is a string returns the one stored document
  with that identifier, or the empty list when there is none, whatever other keys the
  filter has. A filter whose \<^verbatim>\<open>_id\<close> is a dictionary with \<^verbatim>\<open>$in\<close> over a list of
  strings returns the stored documents among them in the order of the list, skipping the
  identifiers that are not stored.
\<close>

theorem find_memory_filter_shapes:
  "find_memory c [] = Inr (map snd (items c)) \<and>
   (map_of f ''_id'' = None \<longrightarrow> find_memory c f = Inr (map snd (items c))) \<and>
   (map_of f ''_id'' = Some (PStr s) \<longrightarrow>
      find_memory c f = Inr (case map_of (items c) s of None \<Rightarrow> [] | Some d \<Rightarrow> [d])) \<and>
   (map_of f ''_id'' = Some (PDict q) \<and> map_of q ''$in'' = Some (PList (map PStr ids)) \<longrightarrow>
      find_memory c f = Inr (List.map_filter (map_of (items c)) ids))"
  by (auto simp: find_memory_def dict_values_def items_lookup_def find_in_strings
      split: option.splits)

theorem find_memory_filter_shapes_witness:
  "find_memory \<lparr>items = [(''a1'', [(''title'', PStr ''X''), (''_id'', PStr ''a1'')]),
                          (''b2'', [(''title'', PStr ''Y''), (''_id'', PStr ''b2'')])]\<rparr>
     [(''title'', PStr ''Y'')]
     = Inr [[(''title'', PStr ''X''), (''_id'', PStr ''a1'')],
            [(''title'', PStr ''Y''), (''_id'', PStr ''b2'')]] \<and>
   find_memory \<lparr>items = [(''a1'', [(''title'', PStr ''X''), (''_id'', PStr ''a1'')]),
                          (''b2'', [(''title'', PStr ''Y''), (''_id'', PStr ''b2'')])]\<rparr>
     [(''_id'', PStr ''b2'')]
     = Inr [[(''title'', PStr ''Y''), (''_id'', PStr ''b2'')]] \<and>
   find_memory \<lparr>items = [(''a1'', [(''title'', PStr ''X''), (''_id'', PStr ''a1'')]),
                          (''b2'', [(''title'', PStr ''Y''), (''_id'', PStr ''b2'')])]\<rparr>
     [(''_id'', PDict [(''$in'', PList (map PStr [''b2'', ''zz'', ''a1'']))])]
     = Inr [[(''title'', PStr ''Y''), (''_id'', PStr ''b2'')],
            [(''title'', PStr ''X''), (''_id'', PStr ''a1'')]]"
  using
    find_memory_filter_shapes
      [where c = "\<lparr>items = [(''a1'', [(''title'', PStr ''X''), (''_id'', PStr ''a1'')]),
                      (''b2'', [(''title'', PStr ''Y''), (''_id'', PStr ''b2'')])]\<rparr>"
         and f = "[(''title'', PStr ''Y'')]"]
    find_memory_filter_shapes
      [where c = "\<lparr>items = [(''a1'', [(''title'', PStr ''X''), (''_id'', PStr ''a1'')]),
                      (''b2'', [(''title'', PStr ''Y''), (''_id'', PStr ''b2'')])]\<rparr>"
         and f = "[(''_id'', PStr ''b2'')]" and s = "''b2''"]
    find_memory_filter_shapes
      [where c = "\<lparr>items = [(''a1'', [(''title'', PStr ''X''), (''_id'', PStr ''a1'')]),
                      (''b2'', [(''title'', PStr ''Y''), (''_id'', PStr ''b2'')])]\<rparr>"
         and f = "[(''_id'', PDict [(''$in'', PList (map PStr [''b2'', ''zz'', ''a1'']))])]"
         and q = "[(''$in'', PList (map PStr [''b2'', ''zz'', ''a1'']))]"
         and ids = "[''b2'', ''zz'', ''a1'']"]
  by (simp add: List.map_filter_simps)

text \<open>
  The claim as it was stated fails: a filter of another shape does not return all
  documents. One whose \<^verbatim>\<open>_id\<close> is a dictionary without \<^verbatim>\<open>$in\<close> raises
  \<^verbatim>\<open>TypeError\<close> at the membership test, and one with further keys beside \<^verbatim>\<open>_id\<close>
  is answered by its \<^verbatim>\<open>_id\<close> alone.
\<close>

theorem find_memory_other_shape_counterexample:
  "find_memory \<lparr>items = [(''a1'', [(''title'', PStr ''X''), (''_id'', PStr ''a1'')])]\<rparr>
     [(''_id'', PDict [(''$ne'', PStr ''zz'')])] = Inl TypeError \<and>
   find_memory \<lparr>items = [(''a1'', [(''title'', PStr ''X''), (''_id'', PStr ''a1'')])]\<rparr>
     [(''_id'', PStr ''zz''), (''title'', PStr ''X'')] = Inr [] \<and>
   find_memory \<lparr>items = [(''a1'', [(''title'', PStr ''X''), (''_id'', PStr ''a1'')])]\<rparr> []
     = Inr [[(''title'', PStr ''X''), (''_id'', PStr ''a1'')]]"
  by (simp add: find_memory_def items_lookup_def dict_values_def)

section \<open>The update operators of the in-memory \<^verbatim>\<open>update_one\<close>\<close>





lemma update_one_matched:
  assumes "filter_id f = PStr s" "map_of (items c) s = Some doc"
  shows "update_one si c f u =
     (c\<lparr>items := dict_setitem s (fst (apply_update si u doc)) (items c)\<rparr>,
      case snd (apply_update si u doc) of
        Some e \<Rightarrow> Inl e
      | None \<Rightarrow> Inr \<lparr>matched_count = 1, modified_count = 1\<rparr>)"
  using assms by (simp add: update_one_def items_lookup_def split: prod.splits)

lemma update_one_unmatched:
  assumes "py_hashable (filter_id f)" "\<And>s. filter_id f = PStr s \<Longrightarrow> map_of (items c) s = None"
  shows "update_one si c f u = (c, Inr \<lparr>matched_count = 0, modified_count = 0\<rparr>)"
  using assms by (cases "filter_id f") (simp_all add: update_one_def items_lookup_def)





section \<open>Updates through the helpers\<close>

lemma set_items_unchanged:
  "list_all (\<lambda>kv. map_of doc (fst kv) = Some (snd kv)) st \<Longrightarrow> set_items st doc = doc"
  by (induction st) (auto simp: dict_setitem_same)

lemma set_items_other:
  "k \<notin> fst ` set st \<Longrightarrow> map_of (set_items st doc) k = map_of doc k"
  by (induction st arbitrary: doc) (auto simp: map_of_dict_setitem)

lemma apply_update_set_only:
  "apply_update si [(''$set'', PDict st)] doc = (set_items st doc, None)"
  by (simp add: apply_update_def stage_inc_def stage_push_def stage_set_def dict_items_def)

lemma apply_update_no_operator:
  "map_of u ''$inc'' = None \<Longrightarrow> map_of u ''$push'' = None \<Longrightarrow> map_of u ''$set'' = None \<Longrightarrow>
   apply_update si u doc = (doc, None)"
  by (simp add: apply_update_def stage_inc_def stage_push_def stage_set_def)

lemma inbound_filter_memory: "inbound_filter True object_id f = f"
  by (simp add: inbound_filter_def split: option.splits pyval.splits)

lemma db_doc_getattr: "map_of (items (snd (getattr_db db name))) s = db_doc db name s"
  by (simp add: getattr_db_def db_doc_def new_collection_def split: option.splits)

lemma db_doc_store:
  "db_doc (store_col name c (fst (getattr_db db name))) n s =
     (if n = name then map_of (items c) s else db_doc db n s)"
  by (auto simp: store_col_def getattr_db_def db_doc_def map_of_dict_setitem
      split: option.splits)

lemma update_one_doc:
  "map_of (items (fst (update_one si c f [(''$set'', PDict st)]))) s =
     (if filter_id f = PStr s then map_option (set_items st) (map_of (items c) s)
      else map_of (items c) s)"
proof (cases "py_hashable (filter_id f)")
  case False
  then show ?thesis by (auto simp: update_one_def items_lookup_def)
next
  case True
  show ?thesis
  proof (cases "\<exists>t doc. filter_id f = PStr t \<and> map_of (items c) t = Some doc")
    case True
    then obtain t doc where "filter_id f = PStr t" "map_of (items c) t = Some doc" by blast
    then show ?thesis
      by (auto simp: update_one_matched apply_update_set_only map_of_dict_setitem)
  next
    case False
    with True have "update_one si c f [(''$set'', PDict st)]
        = (c, Inr \<lparr>matched_count = 0, modified_count = 0\<rparr>)"
      by (intro update_one_unmatched) auto
    with False show ?thesis by (cases "map_of (items c) s") auto
  qed
qed

lemma update_document_memory_unfold:
  "update_document_memory si db name f data now =
     (store_col name
        (fst (update_one si (snd (getattr_db db name)) f [(''$set'', PDict (update_payload data now))]))
        (fst (getattr_db db name)),
      case snd (update_one si (snd (getattr_db db name)) f [(''$set'', PDict (update_payload data now))]) of
        Inl e \<Rightarrow> Inl e
      | Inr res \<Rightarrow> Inr (modified_count res))"
  by (simp add: update_document_memory_def update_document_def inbound_filter_memory
      split: prod.splits sum.splits)

lemma update_document_memory_doc:
  "db_doc (fst (update_document_memory si db name f data now)) n s =
     (if n = name \<and> filter_id f = PStr s
      then map_option (set_items (update_payload data now)) (db_doc db name s)
      else db_doc db n s)"
  by (simp add: update_document_memory_unfold db_doc_store update_one_doc db_doc_getattr)

lemma update_document_memory_count:
  "snd (update_document_memory si db name f data now) =
     (if \<not> py_hashable (filter_id f) then Inl TypeError
      else if \<exists>s. filter_id f = PStr s \<and> db_doc db name s \<noteq> None then Inr 1 else Inr 0)"
proof (cases "py_hashable (filter_id f)")
  case False
  then show ?thesis
    by (simp add: update_document_memory_unfold update_one_def items_lookup_def)
next
  case True
  show ?thesis
  proof (cases "\<exists>s. filter_id f = PStr s \<and> db_doc db name s \<noteq> None")
    case True
    then obtain s doc where "filter_id f = PStr s" "db_doc db name s = Some doc" by auto
    then show ?thesis
      by (simp add: update_document_memory_unfold update_one_matched apply_update_set_only
          db_doc_getattr)
  next
    case False
    with True have "update_one si (snd (getattr_db db name)) f [(''$set'', PDict (update_payload data now))]
        = (snd (getattr_db db name), Inr \<lparr>matched_count = 0, modified_count = 0\<rparr>)"
      by (intro update_one_unmatched) (auto simp: db_doc_getattr)
    with False True show ?thesis
      by (simp add: update_document_memory_unfold)
  qed
qed

lemma map_of_update_payload:
  "map_of (update_payload data now) = (map_of data)(''updated_at'' \<mapsto> PDatetime now)"
  by (simp add: update_payload_def map_of_dict_setitem)

lemma distinct_update_payload:
  "distinct (map fst data) \<Longrightarrow> distinct (map fst (update_payload data now))"
  by (simp add: update_payload_def distinct_dict_setitem)

lemma set_payload_fields:
  "distinct (map fst data) \<Longrightarrow>
   map_of (set_items (update_payload data now) doc) k =
     (if k = ''updated_at'' then Some (PDatetime now)
      else case map_of data k of None \<Rightarrow> map_of doc k | Some v \<Rightarrow> Some v)"
  by (simp add: set_items_fields distinct_update_payload spec_set_field_def map_of_update_payload)


lemmas model_defs =
  update_document_memory_def update_document_def getattr_db_def store_col_def
  inbound_filter_def update_payload_def update_one_def items_lookup_def filter_id_def
  apply_update_def stage_inc_def stage_push_def stage_set_def dict_items_def get0_def
  push_item_def db_doc_def delete_document_memory_def delete_document_def delete_one_def
  dict_delitem_def create_document_memory_def create_document_def create_payload_def
  dict_setdefault_def insert_one_def get_documents_memory_def get_documents_def
  find_memory_def dict_values_def py_slice_to_def new_collection_def new_db_def
  call_data_def call_time_def

text \<open>
  C9. Whenever the filter's \<^verbatim>\<open>_id\<close> is the identifier of a stored document, the only
  result the in-memory \<^verbatim>\<open>update_one\<close> reports has one matched and one modified (the
  call otherwise raises from a malformed operator); it reports them also when the
  payload has none of the three operators and when its \<^verbatim>\<open>$set\<close> gives every field the
  value it has, and the collection is then what it was.
\<close>

theorem matched_implies_modified:
  "filter_id f = PStr s \<and> map_of (items c) s = Some doc \<longrightarrow>
     (snd (update_one si c f u) = Inr \<lparr>matched_count = 1, modified_count = 1\<rparr> \<or>
      isl (snd (update_one si c f u))) \<and>
     (map_of u ''$inc'' = None \<and> map_of u ''$push'' = None \<and> map_of u ''$set'' = None \<longrightarrow>
        update_one si c f u = (c, Inr \<lparr>matched_count = 1, modified_count = 1\<rparr>)) \<and>
     (list_all (\<lambda>kv. map_of doc (fst kv) = Some (snd kv)) st \<longrightarrow>
        update_one si c f [(''$set'', PDict st)] = (c, Inr \<lparr>matched_count = 1, modified_count = 1\<rparr>))"
  by (auto simp: update_one_matched apply_update_no_operator apply_update_set_only
      set_items_unchanged dict_setitem_same split: option.splits)


theorem matched_implies_modified_witness:
  "update_one (\<lambda>_. None) \<lparr>items = [(''a1'', [(''title'', PStr ''X''), (''created_at'', PDatetime 3), (''updated_at'', PDatetime 3), (''_id'', PStr ''a1'')])]\<rparr> [(''_id'', PStr ''a1'')] [(''$unset'', PDict [(''title'', PStr [])])]
     = (\<lparr>items = [(''a1'', [(''title'', PStr ''X''), (''created_at'', PDatetime 3), (''updated_at'', PDatetime 3), (''_id'', PStr ''a1'')])]\<rparr>, Inr \<lparr>matched_count = 1, modified_count = 1\<rparr>) \<and>
   update_one (\<lambda>_. None) \<lparr>items = [(''a1'', [(''title'', PStr ''X''), (''created_at'', PDatetime 3), (''updated_at'', PDatetime 3), (''_id'', PStr ''a1'')])]\<rparr> [(''_id'', PStr ''a1'')] [(''$set'', PDict [(''title'', PStr ''X'')])]
     = (\<lparr>items = [(''a1'', [(''title'', PStr ''X''), (''created_at'', PDatetime 3), (''updated_at'', PDatetime 3), (''_id'', PStr ''a1'')])]\<rparr>, Inr \<lparr>matched_count = 1, modified_count = 1\<rparr>)"
  using matched_implies_modified
      [where si = "\<lambda>_. None" and c = "\<lparr>items = [(''a1'', [(''title'', PStr ''X''), (''created_at'', PDatetime 3), (''updated_at'', PDatetime 3), (''_id'', PStr ''a1'')])]\<rparr>" and f = "[(''_id'', PStr ''a1'')]" and s = "''a1''" and doc = "[(''title'', PStr ''X''), (''created_at'', PDatetime 3), (''updated_at'', PDatetime 3), (''_id'', PStr ''a1'')]"
         and u = "[(''$unset'', PDict [(''title'', PStr [])])]"
         and st = "[(''title'', PStr ''X'')]"]
  by (simp add: filter_id_def)



lemma run_updates_append:
  "run_updates si db (calls1 @ calls2) = run_updates si (run_updates si db calls1) calls2"
  by (induction calls1 arbitrary: db) auto

lemma run_updates_created_at:
  "list_all (\<lambda>call. map_of (call_data call) ''created_at'' = None) calls \<Longrightarrow>
   map_option (\<lambda>d. map_of d ''created_at'') (db_doc (run_updates si db calls) n s) =
   map_option (\<lambda>d. map_of d ''created_at'') (db_doc db n s)"
proof (induction calls arbitrary: db)
  case Nil
  then show ?case by simp
next
  case (Cons call calls)
  obtain name f data now where call: "call = (name, f, data, now)" by (cases call)
  from Cons.prems call have none: "map_of data ''created_at'' = None"
    and rest: "list_all (\<lambda>call. map_of (call_data call) ''created_at'' = None) calls"
    by (simp_all add: call_data_def)
  from none have "''created_at'' \<notin> fst ` set (update_payload data now)"
    by (simp add: map_of_eq_None_iff [symmetric] map_of_update_payload)
  then have "map_option (\<lambda>d. map_of d ''created_at'')
       (db_doc (fst (update_document_memory si db name f data now)) n s) =
     map_option (\<lambda>d. map_of d ''created_at'') (db_doc db n s)"
    by (cases "db_doc db name s") (auto simp: update_document_memory_doc set_items_other)
  with Cons.IH [OF rest] call show ?case by simp
qed

lemma run_updates_updated_at:
  "db_doc db n s = Some doc \<Longrightarrow> map_of doc ''updated_at'' = Some (PDatetime t0) \<Longrightarrow>
   list_all (\<lambda>call. distinct (map fst (call_data call))) calls \<Longrightarrow>
   \<exists>doc' t. db_doc (run_updates si db calls) n s = Some doc' \<and>
     map_of doc' ''updated_at'' = Some (PDatetime t) \<and> t \<in> insert t0 (set (map call_time calls))"
proof (induction calls arbitrary: db doc t0)
  case Nil
  then show ?case by simp
next
  case (Cons call calls)
  obtain name f data now where call: "call = (name, f, data, now)" by (cases call)
  let ?db1 = "fst (update_document_memory si db name f data now)"
  from Cons.prems(3) call have dist: "distinct (map fst data)"
    and rest: "list_all (\<lambda>call. distinct (map fst (call_data call))) calls"
    by (simp_all add: call_data_def)
  from Cons.prems(1,2) dist obtain d1 t1 where
    d1: "db_doc ?db1 n s = Some d1" and t1: "map_of d1 ''updated_at'' = Some (PDatetime t1)"
    and mem: "t1 = t0 \<or> t1 = now"
    by (cases "n = name \<and> filter_id f = PStr s")
      (auto simp: update_document_memory_doc set_payload_fields)
  from Cons.IH [OF d1 t1 rest] obtain doc' t where
    "db_doc (run_updates si ?db1 calls) n s = Some doc'"
    "map_of doc' ''updated_at'' = Some (PDatetime t)"
    "t \<in> insert t1 (set (map call_time calls))"
    by blast
  with mem call show ?case by (auto simp: call_time_def)
qed


text \<open>
  C5 (as amended). Under any sequence of calls of \<^verbatim>\<open>update_document\<close> whose fields do
  not name \<^verbatim>\<open>created_at\<close>, the \<^verbatim>\<open>created_at\<close> of every document is what it was. When
  the clock does not run backwards (the times of the calls are in non-decreasing order
  and none is before the \<^verbatim>\<open>updated_at\<close> the document starts with), the \<^verbatim>\<open>updated_at\<close>
  of a document is non-decreasing along the sequence: its value after any first part of
  the calls is at most its value after the whole.
\<close>

theorem timestamps_under_updates:
  "(list_all (\<lambda>call. map_of (call_data call) ''created_at'' = None) calls \<longrightarrow>
      map_option (\<lambda>d. map_of d ''created_at'') (db_doc (run_updates si db calls) n s) =
      map_option (\<lambda>d. map_of d ''created_at'') (db_doc db n s)) \<and>
   (db_doc db n s = Some doc \<and> map_of doc ''updated_at'' = Some (PDatetime t0) \<and>
    list_all (\<lambda>call. distinct (map fst (call_data call))) (calls1 @ calls2) \<and>
    sorted (t0 # map call_time (calls1 @ calls2)) \<longrightarrow>
      (\<exists>d1 t1 d2 t2.
         db_doc (run_updates si db calls1) n s = Some d1 \<and>
         map_of d1 ''updated_at'' = Some (PDatetime t1) \<and>
         db_doc (run_updates si db (calls1 @ calls2)) n s = Some d2 \<and>
         map_of d2 ''updated_at'' = Some (PDatetime t2) \<and>
         t0 \<le> t1 \<and> t1 \<le> t2))"
proof (intro conjI impI)
  assume "list_all (\<lambda>call. map_of (call_data call) ''created_at'' = None) calls"
  then show "map_option (\<lambda>d. map_of d ''created_at'') (db_doc (run_updates si db calls) n s) =
      map_option (\<lambda>d. map_of d ''created_at'') (db_doc db n s)"
    by (rule run_updates_created_at)
next
  assume a: "db_doc db n s = Some doc \<and> map_of doc ''updated_at'' = Some (PDatetime t0) \<and>
    list_all (\<lambda>call. distinct (map fst (call_data call))) (calls1 @ calls2) \<and>
    sorted (t0 # map call_time (calls1 @ calls2))"
  then have wf1: "list_all (\<lambda>call. distinct (map fst (call_data call))) calls1"
    and wf2: "list_all (\<lambda>call. distinct (map fst (call_data call))) calls2"
    by simp_all
  from a have le1: "\<forall>t \<in> set (map call_time calls1). t0 \<le> t"
    and le2: "\<forall>t \<in> set (map call_time calls1). \<forall>t' \<in> set (map call_time calls2). t \<le> t'"
    and le3: "\<forall>t' \<in> set (map call_time calls2). t0 \<le> t'"
    by (auto simp: sorted_append)
  from a run_updates_updated_at [OF _ _ wf1, of db n s doc t0 si] obtain d1 t1 where
    d1: "db_doc (run_updates si db calls1) n s = Some d1"
    and u1: "map_of d1 ''updated_at'' = Some (PDatetime t1)"
    and m1: "t1 \<in> insert t0 (set (map call_time calls1))"
    by blast
  from run_updates_updated_at [OF d1 u1 wf2, of si] obtain d2 t2 where
    d2: "db_doc (run_updates si db (calls1 @ calls2)) n s = Some d2"
    and u2: "map_of d2 ''updated_at'' = Some (PDatetime t2)"
    and m2: "t2 \<in> insert t1 (set (map call_time calls2))"
    by (auto simp: run_updates_append)
  from m1 le1 have "t0 \<le> t1" by auto
  moreover from m1 m2 le2 le3 have "t1 \<le> t2" by auto
  ultimately show "\<exists>d1 t1 d2 t2.
         db_doc (run_updates si db calls1) n s = Some d1 \<and>
         map_of d1 ''updated_at'' = Some (PDatetime t1) \<and>
         db_doc (run_updates si db (calls1 @ calls2)) n s = Some d2 \<and>
         map_of d2 ''updated_at'' = Some (PDatetime t2) \<and>
         t0 \<le> t1 \<and> t1 \<le> t2"
    using d1 u1 d2 u2 by blast
qed


theorem timestamps_under_updates_witness:
  "db_doc (run_updates (\<lambda>_. None) \<lparr>cols = [(''idea'', \<lparr>items = [(''a1'', [(''title'', PStr ''X''), (''created_at'', PDatetime 3), (''updated_at'', PDatetime 3), (''_id'', PStr ''a1'')])]\<rparr>)]\<rparr> [(''idea'', [(''_id'', PStr ''a1'')], [(''upvotes'', PInt 5)], 9)]) ''idea'' ''a1''
     = Some [(''title'', PStr ''X''), (''created_at'', PDatetime 3), (''updated_at'', PDatetime 9), (''_id'', PStr ''a1''), (''upvotes'', PInt 5)] \<and>
   db_doc (run_updates (\<lambda>_. None) \<lparr>cols = [(''idea'', \<lparr>items = [(''a1'', [(''title'', PStr ''X''), (''created_at'', PDatetime 3), (''updated_at'', PDatetime 3), (''_id'', PStr ''a1'')])]\<rparr>)]\<rparr>
       ([(''idea'', [(''_id'', PStr ''a1'')], [(''upvotes'', PInt 5)], 9)] @ [(''idea'', [(''_id'', PStr ''a1'')], [(''title'', PStr ''Y'')], 12)]))
       ''idea'' ''a1''
     = Some [(''title'', PStr ''Y''), (''created_at'', PDatetime 3), (''updated_at'', PDatetime 12), (''_id'', PStr ''a1''), (''upvotes'', PInt 5)]"
  using timestamps_under_updates
      [where si = "\<lambda>_. None" and db = "\<lparr>cols = [(''idea'', \<lparr>items = [(''a1'', [(''title'', PStr ''X''), (''created_at'', PDatetime 3), (''updated_at'', PDatetime 3), (''_id'', PStr ''a1'')])]\<rparr>)]\<rparr>" and n = "''idea''" and s = "''a1''"
         and doc = "[(''title'', PStr ''X''), (''created_at'', PDatetime 3), (''updated_at'', PDatetime 3), (''_id'', PStr ''a1'')]" and ?t0.0 = 3
         and calls = "[(''idea'', [(''_id'', PStr ''a1'')], [(''upvotes'', PInt 5)], 9), (''idea'', [(''_id'', PStr ''a1'')], [(''title'', PStr ''Y'')], 12)]"
         and ?calls1.0 = "[(''idea'', [(''_id'', PStr ''a1'')], [(''upvotes'', PInt 5)], 9)]"
         and ?calls2.0 = "[(''idea'', [(''_id'', PStr ''a1'')], [(''title'', PStr ''Y'')], 12)]"]
  by (simp add: model_defs)

text \<open>
  The claim as it was stated fails: a call of \<^verbatim>\<open>update_document\<close> whose fields name
  \<^verbatim>\<open>created_at\<close> replaces the \<^verbatim>\<open>created_at\<close> of the document.
\<close>

theorem update_document_created_at_counterexample:
  "update_document_memory (\<lambda>_. None) \<lparr>cols = [(''idea'', \<lparr>items = [(''a1'', [(''title'', PStr ''X''), (''created_at'', PDatetime 3), (''updated_at'', PDatetime 3), (''_id'', PStr ''a1'')])]\<rparr>)]\<rparr> ''idea'' [(''_id'', PStr ''a1'')] [(''created_at'', PDatetime 99)] 9
     = (\<lparr>cols = [(''idea'', \<lparr>items = [(''a1'', [(''title'', PStr ''X''), (''created_at'', PDatetime 99), (''updated_at'', PDatetime 9), (''_id'', PStr ''a1'')])]\<rparr>)]\<rparr>, Inr 1)"
  by (simp add: model_defs)

section \<open>Deleting\<close>

lemma delete_one_doc:
  "map_of (items (fst (delete_one c f))) t =
     (if filter_id f = PStr t then None else map_of (items c) t)"
proof (cases "py_hashable (filter_id f)")
  case False
  then show ?thesis by (auto simp: delete_one_def items_lookup_def)
next
  case True
  then show ?thesis
    by (cases "filter_id f")
      (auto simp: delete_one_def items_lookup_def map_of_dict_delitem split: option.splits)
qed

lemma delete_one_count:
  "snd (delete_one c f) =
     (if \<not> py_hashable (filter_id f) then Inl TypeError
      else if \<exists>s. filter_id f = PStr s \<and> map_of (items c) s \<noteq> None
        then Inr \<lparr>deleted_count = 1\<rparr> else Inr \<lparr>deleted_count = 0\<rparr>)"
  by (cases "filter_id f") (auto simp: delete_one_def items_lookup_def split: option.splits)

lemma delete_document_memory_unfold:
  "delete_document_memory db name f =
     (store_col name (fst (delete_one (snd (getattr_db db name)) f)) (fst (getattr_db db name)),
      case snd (delete_one (snd (getattr_db db name)) f) of
        Inl e \<Rightarrow> Inl e
      | Inr res \<Rightarrow> Inr (deleted_count res))"
  by (simp add: delete_document_memory_def delete_document_def inbound_filter_memory
      split: prod.splits sum.splits)

lemma delete_document_memory_doc:
  "db_doc (fst (delete_document_memory db name f)) n t =
     (if n = name \<and> filter_id f = PStr t then None else db_doc db n t)"
  by (simp add: delete_document_memory_unfold db_doc_store delete_one_doc db_doc_getattr)

lemma delete_document_memory_count:
  "snd (delete_document_memory db name f) =
     (if \<not> py_hashable (filter_id f) then Inl TypeError
      else if \<exists>s. filter_id f = PStr s \<and> db_doc db name s \<noteq> None then Inr 1 else Inr 0)"
  by (auto simp: delete_document_memory_unfold delete_one_count db_doc_getattr)

text \<open>
  Where the filter's \<^verbatim>\<open>_id\<close> is a scalar or absent: \<^verbatim>\<open>delete_document\<close> with a
  filter whose \<^verbatim>\<open>_id\<close> is the identifier of a stored document removes it and returns
  1, and the same call made again at once returns 0; for \<^verbatim>\<open>update_document\<close> and
  \<^verbatim>\<open>delete_document\<close>, such a filter that names no stored document gives the count 0,
  raises nothing and leaves every document as it was.
\<close>

lemma delete_twice_and_not_found:
  "(filter_id f = PStr s \<and> db_doc db name s = Some doc \<longrightarrow>
      snd (delete_document_memory db name f) = Inr 1 \<and>
      db_doc (fst (delete_document_memory db name f)) name s = None \<and>
      snd (delete_document_memory (fst (delete_document_memory db name f)) name f) = Inr 0) \<and>
   (py_hashable (filter_id f) \<and> (\<forall>t. filter_id f = PStr t \<longrightarrow> db_doc db name t = None) \<longrightarrow>
      snd (delete_document_memory db name f) = Inr 0 \<and>
      snd (update_document_memory si db name f data now) = Inr 0 \<and>
      (\<forall>n t. db_doc (fst (delete_document_memory db name f)) n t = db_doc db n t) \<and>
      (\<forall>n t. db_doc (fst (update_document_memory si db name f data now)) n t = db_doc db n t))"
  by (auto simp: delete_document_memory_count delete_document_memory_doc
      update_document_memory_count update_document_memory_doc)

lemma delete_twice_and_not_found_witness:
  "delete_document_memory \<lparr>cols = [(''idea'', \<lparr>items = [(''a1'', [(''title'', PStr ''X''), (''created_at'', PDatetime 3), (''updated_at'', PDatetime 3), (''_id'', PStr ''a1'')])]\<rparr>)]\<rparr> ''idea'' [(''_id'', PStr ''a1'')] = (\<lparr>cols = [(''idea'', \<lparr>items = []\<rparr>)]\<rparr>, Inr 1) \<and>
   delete_document_memory \<lparr>cols = [(''idea'', \<lparr>items = []\<rparr>)]\<rparr> ''idea'' [(''_id'', PStr ''a1'')] = (\<lparr>cols = [(''idea'', \<lparr>items = []\<rparr>)]\<rparr>, Inr 0) \<and>
   update_document_memory (\<lambda>_. None) \<lparr>cols = [(''idea'', \<lparr>items = []\<rparr>)]\<rparr> ''idea'' [(''_id'', PStr ''a1'')] [(''upvotes'', PInt 5)] 9 = (\<lparr>cols = [(''idea'', \<lparr>items = []\<rparr>)]\<rparr>, Inr 0)"
  using
    delete_twice_and_not_found
      [where db = "\<lparr>cols = [(''idea'', \<lparr>items = [(''a1'', [(''title'', PStr ''X''), (''created_at'', PDatetime 3), (''updated_at'', PDatetime 3), (''_id'', PStr ''a1'')])]\<rparr>)]\<rparr>" and name = "''idea''" and f = "[(''_id'', PStr ''a1'')]" and s = "''a1''" and doc = "[(''title'', PStr ''X''), (''created_at'', PDatetime 3), (''updated_at'', PDatetime 3), (''_id'', PStr ''a1'')]"]
    delete_twice_and_not_found
      [where db = "\<lparr>cols = [(''idea'', \<lparr>items = []\<rparr>)]\<rparr>" and name = "''idea''" and f = "[(''_id'', PStr ''a1'')]" and si = "\<lambda>_. None"
         and data = "[(''upvotes'', PInt 5)]" and now = 9]
  by (simp add: model_defs)

text \<open>
  C6. The claim has every filter that matches no document give the count 0 and never an
  error, for \<^verbatim>\<open>update\<close> and \<^verbatim>\<open>delete\<close>. The filter
  \<^verbatim>\<open>{"_id": {"$in": ["nonexistent"]}}\<close> matches no document, and \<^verbatim>\<open>get_documents\<close>
  answers it with the empty list; \<^verbatim>\<open>delete_document\<close> and \<^verbatim>\<open>update_document\<close>
  raise \<^verbatim>\<open>TypeError\<close> on it, from the membership test of \<^verbatim>\<open>delete_one\<close> and
  \<^verbatim>\<open>update_one\<close> on the dictionary, and return no count.
\<close>

theorem delete_and_update_in_filter_raise:
  "delete_document_memory \<lparr>cols = [(''idea'', \<lparr>items = [(''a1'', [(''title'', PStr ''X''), (''created_at'', PDatetime 3), (''updated_at'', PDatetime 3), (''_id'', PStr ''a1'')])]\<rparr>)]\<rparr> ''idea'' [(''_id'', PDict [(''$in'', PList [PStr ''nonexistent''])])]
     = (\<lparr>cols = [(''idea'', \<lparr>items = [(''a1'', [(''title'', PStr ''X''), (''created_at'', PDatetime 3), (''updated_at'', PDatetime 3), (''_id'', PStr ''a1'')])]\<rparr>)]\<rparr>, Inl TypeError) \<and>
   update_document_memory (\<lambda>_. None) \<lparr>cols = [(''idea'', \<lparr>items = [(''a1'', [(''title'', PStr ''X''), (''created_at'', PDatetime 3), (''updated_at'', PDatetime 3), (''_id'', PStr ''a1'')])]\<rparr>)]\<rparr> ''idea'' [(''_id'', PDict [(''$in'', PList [PStr ''nonexistent''])])] [(''upvotes'', PInt 5)] 9
     = (\<lparr>cols = [(''idea'', \<lparr>items = [(''a1'', [(''title'', PStr ''X''), (''created_at'', PDatetime 3), (''updated_at'', PDatetime 3), (''_id'', PStr ''a1'')])]\<rparr>)]\<rparr>, Inl TypeError) \<and>
   get_documents_memory \<lparr>cols = [(''idea'', \<lparr>items = [(''a1'', [(''title'', PStr ''X''), (''created_at'', PDatetime 3), (''updated_at'', PDatetime 3), (''_id'', PStr ''a1'')])]\<rparr>)]\<rparr> ''idea'' [(''_id'', PDict [(''$in'', PList [PStr ''nonexistent''])])] 10
     = (\<lparr>cols = [(''idea'', \<lparr>items = [(''a1'', [(''title'', PStr ''X''), (''created_at'', PDatetime 3), (''updated_at'', PDatetime 3), (''_id'', PStr ''a1'')])]\<rparr>)]\<rparr>, Inr [])"
  by (simp add: model_defs)

section \<open>Creating and reading back\<close>

lemma map_of_serialize: "map_of (serialize d) k = map_option serialize_value (map_of d k)"
  by (induction d) auto

lemma serialize_oid_free:
  "oid_free v \<Longrightarrow> serialize_value v = v"
  "oid_free_list xs \<Longrightarrow> map serialize_item xs = xs"
  "oid_free_dict d \<Longrightarrow> serialize d = d"
  by (induction v and xs and d rule: oid_free_oid_free_list_oid_free_dict.induct)
    (auto simp: serialize_item_def is_object_id_def split: pyval.splits)

lemma map_of_dict_setdefault:
  "map_of (dict_setdefault k v d) j = (if j = k \<and> map_of d k = None then Some v else map_of d j)"
  by (auto simp: dict_setdefault_def map_add_def split: option.splits)

lemma map_of_create_payload:
  "map_of (create_payload data now) k =
     (case map_of data k of
        Some v \<Rightarrow> Some v
      | None \<Rightarrow> if k = ''created_at'' \<or> k = ''updated_at'' then Some (PDatetime now) else None)"
  by (auto simp: create_payload_def map_of_dict_setdefault split: option.splits)

lemma getattr_db_store:
  "getattr_db (store_col name c (fst (getattr_db db name))) name =
     (store_col name c (fst (getattr_db db name)), c)"
  by (simp add: getattr_db_def store_col_def map_of_dict_setitem split: option.splits)

lemma create_document_memory_unfold:
  "create_document_memory db name data now oid =
     (store_col name
        ((snd (getattr_db db name))
           \<lparr>items := dict_setitem oid (dict_setitem ''_id'' (PStr oid) (create_payload data now))
                       (items (snd (getattr_db db name)))\<rparr>)
        (fst (getattr_db db name)),
      PStr oid)"
  by (simp add: create_document_memory_def create_document_def insert_one_def split: prod.splits)

lemma py_slice_to_singleton: "1 \<le> limit \<Longrightarrow> py_slice_to [x] limit = [x]"
  by (cases "nat limit") (auto simp: py_slice_to_def)

lemma read_back:
  assumes "1 \<le> limit"
  shows "get_documents_memory (fst (create_document_memory db name data now oid)) name
           [(''_id'', PStr oid)] limit =
         (fst (create_document_memory db name data now oid),
          Inr [serialize (dict_setitem ''_id'' (PStr oid) (create_payload data now))])"
  using assms
  by (simp add: create_document_memory_unfold get_documents_memory_def getattr_db_store
      get_documents_def inbound_filter_memory find_memory_def items_lookup_def
      map_of_dict_setitem py_slice_to_singleton)

text \<open>
  C1 (as amended). For every collection name and every fields mapping, \<^verbatim>\<open>create\<close>
  followed by \<^verbatim>\<open>read\<close> with the filter \<^verbatim>\<open>{"_id": <returned identifier>}\<close> and a
  limit of at least 1 returns exactly one document. Its \<^verbatim>\<open>_id\<close> is the returned
  identifier, also when the caller supplied an \<^verbatim>\<open>_id\<close> of their own. On every other
  caller-supplied field it holds the supplied value as outbound serialization gives it,
  which is the supplied value itself when that holds no backend-native identifier.
  \<^verbatim>\<open>created_at\<close> and \<^verbatim>\<open>updated_at\<close> are populated: each is the time of the call
  unless the caller supplied it, so they are equal when the caller supplied neither.
\<close>

theorem create_then_read_round_trip:
  "1 \<le> limit \<longrightarrow>
     snd (create_document_memory db name data now oid) = PStr oid \<and>
     (\<exists>d. snd (get_documents_memory (fst (create_document_memory db name data now oid)) name
               [(''_id'', snd (create_document_memory db name data now oid))] limit) = Inr [d] \<and>
        map_of d ''_id'' = Some (PStr oid) \<and>
        (\<forall>k v. k \<noteq> ''_id'' \<and> map_of data k = Some v \<longrightarrow>
           map_of d k = Some (serialize_value v) \<and> (oid_free v \<longrightarrow> map_of d k = Some v)) \<and>
        (map_of data ''created_at'' = None \<longrightarrow> map_of d ''created_at'' = Some (PDatetime now)) \<and>
        (map_of data ''updated_at'' = None \<longrightarrow> map_of d ''updated_at'' = Some (PDatetime now)))"
proof
  assume limit: "1 \<le> limit"
  let ?stored = "dict_setitem ''_id'' (PStr oid) (create_payload data now)"
  have rid: "snd (create_document_memory db name data now oid) = PStr oid"
    by (simp add: create_document_memory_unfold)
  have fields: "map_of (serialize ?stored) k =
      (if k = ''_id'' then Some (PStr oid)
       else map_option serialize_value (map_of (create_payload data now) k))" for k
    by (simp add: map_of_serialize map_of_dict_setitem)
  have get: "snd (get_documents_memory (fst (create_document_memory db name data now oid)) name
               [(''_id'', snd (create_document_memory db name data now oid))] limit) =
             Inr [serialize ?stored]"
    using read_back [OF limit, of db name data now oid] by (simp add: rid)
  have f1: "map_of (serialize ?stored) ''_id'' = Some (PStr oid)"
    by (simp add: fields)
  have f2: "\<forall>k v. k \<noteq> ''_id'' \<and> map_of data k = Some v \<longrightarrow>
      map_of (serialize ?stored) k = Some (serialize_value v) \<and>
      (oid_free v \<longrightarrow> map_of (serialize ?stored) k = Some v)"
    using serialize_oid_free(1) by (simp add: fields map_of_create_payload)
  have f3: "map_of data ''created_at'' = None \<longrightarrow>
      map_of (serialize ?stored) ''created_at'' = Some (PDatetime now)"
    by (simp add: fields map_of_create_payload)
  have f4: "map_of data ''updated_at'' = None \<longrightarrow>
      map_of (serialize ?stored) ''updated_at'' = Some (PDatetime now)"
    by (simp add: fields map_of_create_payload)
  show "snd (create_document_memory db name data now oid) = PStr oid \<and>
     (\<exists>d. snd (get_documents_memory (fst (create_document_memory db name data now oid)) name
               [(''_id'', snd (create_document_memory db name data now oid))] limit) = Inr [d] \<and>
        map_of d ''_id'' = Some (PStr oid) \<and>
        (\<forall>k v. k \<noteq> ''_id'' \<and> map_of data k = Some v \<longrightarrow>
           map_of d k = Some (serialize_value v) \<and> (oid_free v \<longrightarrow> map_of d k = Some v)) \<and>
        (map_of data ''created_at'' = None \<longrightarrow> map_of d ''created_at'' = Some (PDatetime now)) \<and>
        (map_of data ''updated_at'' = None \<longrightarrow> map_of d ''updated_at'' = Some (PDatetime now)))"
    by (intro conjI exI [where x = "serialize ?stored"]) (rule rid get f1 f2 f3 f4)+
qed

theorem create_then_read_round_trip_witness:
  "create_document_memory new_db ''idea'' [(''title'', PStr ''X''), (''maker'', PStr ''M'')] 7 ''0123456789abcdef01234567''
     = (\<lparr>cols = [(''idea'', \<lparr>items = [(''0123456789abcdef01234567'',
           [(''title'', PStr ''X''), (''maker'', PStr ''M''), (''created_at'', PDatetime 7),
            (''updated_at'', PDatetime 7), (''_id'', PStr ''0123456789abcdef01234567'')])]\<rparr>)]\<rparr>,
        PStr ''0123456789abcdef01234567'') \<and>
   snd (get_documents_memory
         (fst (create_document_memory new_db ''idea'' [(''title'', PStr ''X''), (''maker'', PStr ''M'')] 7 ''0123456789abcdef01234567''))
         ''idea'' [(''_id'', PStr ''0123456789abcdef01234567'')] 1)
     = Inr [[(''title'', PStr ''X''), (''maker'', PStr ''M''), (''created_at'', PDatetime 7),
             (''updated_at'', PDatetime 7), (''_id'', PStr ''0123456789abcdef01234567'')]]"
  using create_then_read_round_trip
      [where limit = 1 and db = new_db and name = "''idea''"
         and data = "[(''title'', PStr ''X''), (''maker'', PStr ''M'')]" and now = 7
         and oid = "''0123456789abcdef01234567''"]
  by (simp add: model_defs)

text \<open>
  The claim as it was stated fails on a caller-supplied \<^verbatim>\<open>_id\<close>: the in-memory
  \<^verbatim>\<open>insert_one\<close> stores the document under the token it draws and writes that token
  over the caller's \<^verbatim>\<open>_id\<close>.
\<close>

theorem create_supplied_id_counterexample:
  "snd (get_documents_memory
         (fst (create_document_memory new_db ''idea''
                 [(''_id'', PStr ''custom''), (''title'', PStr ''X'')] 7 ''0123456789abcdef01234567''))
         ''idea''
         [(''_id'', snd (create_document_memory new_db ''idea''
                 [(''_id'', PStr ''custom''), (''title'', PStr ''X'')] 7 ''0123456789abcdef01234567''))] 1)
     = Inr [[(''_id'', PStr ''0123456789abcdef01234567''), (''title'', PStr ''X''),
             (''created_at'', PDatetime 7), (''updated_at'', PDatetime 7)]]"
  by (simp add: model_defs)

section \<open>Outbound serialization\<close>

text \<open>What \<^verbatim>\<open>_serialize\<close> does reach: no field of the result is an identifier, and
  no item of a list that is a field of the result is one.\<close>

lemma serialize_value_not_object_id: "serialize_value v \<noteq> PObjectId h"
  by (cases v) simp_all

lemma serialize_field_not_object_id: "map_of (serialize d) k \<noteq> Some (PObjectId h)"
  by (simp add: map_of_serialize serialize_value_not_object_id)

lemma serialize_item_not_object_id: "serialize_item x \<noteq> PObjectId h"
  by (cases x) (simp_all add: serialize_item_def is_object_id_def)

lemma serialize_list_items:
  "map_of (serialize d) k = Some (PList xs) \<Longrightarrow> PObjectId h \<notin> set xs"
proof -
  assume a: "map_of (serialize d) k = Some (PList xs)"
  then obtain v where v: "map_of d k = Some v" and sv: "serialize_value v = PList xs"
    by (auto simp: map_of_serialize)
  then obtain ys where "v = PList ys" by (cases v) auto
  with sv have "xs = map serialize_item ys" by simp
  then show ?thesis using serialize_item_not_object_id [of _ h] by (metis imageE list.set_map)
qed

text \<open>
  C7. \<^verbatim>\<open>_serialize\<close> turns an identifier into its string where it is the value of a
  field, of the document or of a nested document, and where it is an item of a list that
  is such a value. It does not look into the items of a list: an identifier inside a
  document inside a list, or inside a list inside a list, leaves the store layer as it is.
\<close>

theorem serialize_list_of_documents_keeps_identifier:
  "serialize
     [(''_id'', PObjectId ''0123456789abcdef01234567''),
      (''refs'', PList [PObjectId ''aaaaaaaaaaaaaaaaaaaaaaaa'', PStr ''x'']),
      (''owner'', PDict [(''id'', PObjectId ''bbbbbbbbbbbbbbbbbbbbbbbb'')]),
      (''comments'', PList [PDict [(''author_id'', PObjectId ''cccccccccccccccccccccccc'')]])]
   = [(''_id'', PStr ''0123456789abcdef01234567''),
      (''refs'', PList [PStr ''aaaaaaaaaaaaaaaaaaaaaaaa'', PStr ''x'']),
      (''owner'', PDict [(''id'', PStr ''bbbbbbbbbbbbbbbbbbbbbbbb'')]),
      (''comments'', PList [PDict [(''author_id'', PObjectId ''cccccccccccccccccccccccc'')]])]"
  by (simp add: serialize_item_def is_object_id_def)

section \<open>Inbound translation of the filter\<close>

lemma get_documents_unfold:
  "get_documents use_memory object_id col_find f limit =
     (case col_find (inbound_filter use_memory object_id f) of
        Inl e \<Rightarrow> Inl e
      | Inr docs \<Rightarrow> Inr (map serialize (py_slice_to docs limit)))"
  by (simp add: get_documents_def Let_def split: sum.splits py_error.splits)

lemma inbound_filter_cases:
  "inbound_filter use_memory object_id f =
     (case map_of f ''_id'' of
        Some (PStr s) \<Rightarrow>
          (case object_id s of
             Some h \<Rightarrow> if \<not> use_memory \<and> s \<noteq> [] then dict_setitem ''_id'' (PObjectId h) f else f
           | None \<Rightarrow> f)
      | _ \<Rightarrow> f)"
  by (simp add: inbound_filter_def split: option.splits pyval.splits)



text \<open>
  C10. The helpers translate the filter only where its top-level \<^verbatim>\<open>_id\<close> is a string:
  any other filter goes to the collection as it came. In particular a filter
  \<^verbatim>\<open>{"_id": {"$in": [...]}}\<close> is never translated, whatever its list holds and on
  either backend, by \<^verbatim>\<open>get_documents\<close>, \<^verbatim>\<open>update_document\<close> and
  \<^verbatim>\<open>delete_document\<close> alike.
\<close>

theorem in_filter_not_translated:
  "((\<forall>s. map_of f ''_id'' \<noteq> Some (PStr s)) \<longrightarrow> inbound_filter use_memory object_id f = f) \<and>
   (map_of f ''_id'' = Some (PDict q) \<longrightarrow>
      inbound_filter use_memory object_id f = f \<and>
      get_documents use_memory object_id col_find f limit =
        (case col_find f of
           Inl e \<Rightarrow> Inl e
         | Inr docs \<Rightarrow> Inr (map serialize (py_slice_to docs limit))) \<and>
      update_document use_memory object_id col_update_one f data now =
        (case col_update_one f [(''$set'', PDict (update_payload data now))] of
           (st, Inl e) \<Rightarrow> (st, Inl e)
         | (st, Inr res) \<Rightarrow> (st, Inr (modified_count res))) \<and>
      delete_document use_memory object_id col_delete_one f =
        (case col_delete_one f of
           (st, Inl e) \<Rightarrow> (st, Inl e)
         | (st, Inr res) \<Rightarrow> (st, Inr (deleted_count res))))"
  by (auto simp: get_documents_unfold inbound_filter_cases update_document_def
      delete_document_def split: option.splits pyval.splits)

theorem in_filter_not_translated_witness:
  "inbound_filter False (\<lambda>s. if length s = 24 then Some s else None)
     [(''_id'', PDict [(''$in'', PList [PStr ''0123456789abcdef01234567''])])]
     = [(''_id'', PDict [(''$in'', PList [PStr ''0123456789abcdef01234567''])])] \<and>
   inbound_filter False (\<lambda>s. if length s = 24 then Some s else None) [(''_id'', PStr ''0123456789abcdef01234567'')]
     = [(''_id'', PObjectId ''0123456789abcdef01234567'')] \<and>
   get_documents False (\<lambda>s. if length s = 24 then Some s else None)
     (\<lambda>f. Inr (if f = [(''_id'', PDict [(''$in'', PList [PStr ''0123456789abcdef01234567''])])] then [] else
                  [[(''_id'', PObjectId ''0123456789abcdef01234567'')]]))
     [(''_id'', PDict [(''$in'', PList [PStr ''0123456789abcdef01234567''])])] 10
     = Inr []"
  using in_filter_not_translated
      [where f = "[(''_id'', PDict [(''$in'', PList [PStr ''0123456789abcdef01234567''])])]"
         and q = "[(''$in'', PList [PStr ''0123456789abcdef01234567''])]"
         and use_memory = False
         and object_id = "\<lambda>s. if length s = 24 then Some s else None"
         and col_find = "\<lambda>f. Inr (if f = [(''_id'', PDict [(''$in'', PList [PStr ''0123456789abcdef01234567''])])] then [] else
                  [[(''_id'', PObjectId ''0123456789abcdef01234567'')]])"
         and limit = 10]
  by (simp add: inbound_filter_def get_documents_def py_slice_to_def)

end
